theory Spec2Isabelle
  imports Complex_Main "HOL-Library.Sublist"
begin

section \<open>The continual-learning adapter of models/utils/continual_model.py\<close>

text \<open>
  The file defines one class, \<open>ContinualModel\<close>: a network, a loss, a configuration, a
  transform and an optimizer, with a forward pass, an abstract training step
  (\<open>observe\<close>), its instrumented wrapper (\<open>meta_observe\<close>), the logging hook
  (\<open>autolog_wandb\<close>) and checkpointing (\<open>save\<close>, \<open>load\<close>).

  Python exceptions are values of \<open>error\<close>. An operation that mutates state returns the
  outcome together with the state it leaves, also when it raises: an exception does not
  undo the mutations made before it.
\<close>

subsection \<open>Errors and values\<close>

datatype error =
    KeyError string
  | NotImplementedError string
  | AttributeError string
  | NameError string
  | TypeError
  | OSError string
  | FileNotFoundError string
  | UnpicklingError
  | RuntimeError string

text \<open>
  A tensor is a nested array: \<open>Elem x\<close> is the zero-dimensional tensor holding \<open>x\<close>,
  \<open>Stack ts\<close> stacks the tensors \<open>ts\<close> along a new first axis. The element type \<open>'n\<close>
  is left open: the code moves numbers and never computes with them.
\<close>

datatype 'n tensor = Elem 'n | Stack "'n tensor list"

fun shape :: "'n tensor \<Rightarrow> nat list" where
  "shape (Elem x) = []"
| "shape (Stack []) = [0]"
| "shape (Stack (t # ts)) = Suc (length ts) # shape t"

definition dim :: "'n tensor \<Rightarrow> nat" where
  "dim t = length (shape t)"

text \<open>\<open>t.item()\<close>: the number of a tensor with one element; any other tensor has none.\<close>

fun item :: "'n tensor \<Rightarrow> 'n option" where
  "item (Elem x) = Some x"
| "item (Stack [t]) = item t"
| "item (Stack ts) = None"

text \<open>The Python values a local variable or an argument of a training step may hold.\<close>

datatype 'n pyval =
    Tensor "'n tensor"
  | Float 'n
  | Str string
  | PyNone
  | Object string

type_synonym 'n pydict = "(string \<times> 'n pyval) list"

subsection \<open>Network, optimizer, configuration, adapter\<close>

text \<open>
  A network (\<open>nn.Module\<close>) holds named tensors, each a parameter or a buffer, and a
  forward computation, which may raise and may update the tensors (running statistics).
\<close>

datatype kind = Parameter | Buffer

type_synonym 'n entry = "string \<times> kind \<times> 'n tensor"

type_synonym 'n state_dict = "(string \<times> 'n tensor) list"

record 'n network =
  entries :: "'n entry list"
  forward_fn :: "'n entry list \<Rightarrow> 'n tensor \<Rightarrow> (error + 'n tensor) \<times> 'n entry list"

text \<open>\<open>net.parameters()\<close>: references to the parameters, by name, in registration order.\<close>

definition parameters :: "'n network \<Rightarrow> string list" where
  "parameters n = map fst (filter (\<lambda>(k, kd, t). kd = Parameter) (entries n))"

definition state_dict :: "'n network \<Rightarrow> 'n state_dict" where
  "state_dict n = map (\<lambda>(k, kd, t). (k, t)) (entries n)"

text \<open>\<open>net(x)\<close>\<close>

definition call_net :: "'n network \<Rightarrow> 'n tensor \<Rightarrow> (error + 'n tensor) \<times> 'n network" where
  "call_net n x = (case forward_fn n (entries n) x of (r, es) \<Rightarrow> (r, n\<lparr>entries := es\<rparr>))"

datatype opt_class = SGD | Adam

text \<open>
  An optimizer of \<open>torch.optim\<close>: its class, the parameters it is bound to, its learning
  rate and its per-parameter state, empty when it is created. The constructors belong to
  the library; the model takes a constructor call to return the optimizer.
\<close>

record 'n optimizer =
  opt_class :: opt_class
  param_groups :: "string list"
  opt_lr :: 'n
  opt_state :: "'n state_dict"

definition new_optimizer :: "opt_class \<Rightarrow> string list \<Rightarrow> 'n \<Rightarrow> 'n optimizer" where
  "new_optimizer cls ps r = \<lparr>opt_class = cls, param_groups = ps, opt_lr = r, opt_state = []\<rparr>"


text \<open>The fields of the \<open>Namespace\<close> that the class reads; \<open>args_opt\<close> is \<open>args.opt\<close>.\<close>

record 'n args =
  args_opt :: string
  lr :: 'n
  nowand :: bool
  debug_mode :: bool

text \<open>
  The adapter. \<open>'m\<close> is the type of the loss and the transform (modules the class only
  stores), \<open>'d\<close> the type of devices.
\<close>

record ('n, 'm, 'd) ContinualModel =
  net :: "'n network"
  loss :: 'm
  args :: "'n args"
  transform :: 'm
  opt :: "'n optimizer"
  device :: 'd

subsection \<open>Construction\<close>


subsection \<open>Forward pass\<close>

definition forward ::
  "'n tensor \<Rightarrow> ('n, 'm, 'd) ContinualModel \<Rightarrow> (error + 'n tensor) \<times> ('n, 'm, 'd) ContinualModel"
where
  "forward x self = (case call_net (net self) x of (r, n) \<Rightarrow> (r, self\<lparr>net := n\<rparr>))"

subsection \<open>The world: adapter, storage, and what was called\<close>

datatype 'n blob = Checkpoint "'n state_dict" | Other_content

datatype 'n event =
    Observe_called "'n pyval list" "'n pydict"
  | Wandb_logged "'n pydict"

record ('n, 'm, 'd) world =
  model :: "('n, 'm, 'd) ContinualModel"
  files :: "string \<rightharpoonup> 'n blob"
  writable :: "string \<Rightarrow> bool"
  events :: "'n event list"

subsection \<open>The training step\<close>

text \<open>
  A training step takes the adapter, the positional and the keyword arguments, and gives
  back its outcome and the adapter it leaves: either an exception, or the value it
  returns together with its local variables at the moment it returns.
\<close>

type_synonym ('n, 'm, 'd) step =
  "('n, 'm, 'd) ContinualModel \<Rightarrow> 'n pyval list \<Rightarrow> 'n pydict
     \<Rightarrow> (error + 'n pyval \<times> 'n pydict) \<times> ('n, 'm, 'd) ContinualModel"

text \<open>The body of the base class's \<open>observe\<close>: \<open>raise NotImplementedError\<close>.\<close>

definition observe ::
  "'n pyval \<Rightarrow> 'n pyval \<Rightarrow> ('n, 'm, 'd) ContinualModel
     \<Rightarrow> (error + 'n pyval \<times> 'n pydict) \<times> ('n, 'm, 'd) ContinualModel"
where
  "observe cur_data next_data self = (Inl (NotImplementedError []), self)"

text \<open>
  Python binds \<open>*args, **kwargs\<close> to the signature \<open>(cur_data, next_data)\<close>: too many
  positional arguments, an unknown or doubly given keyword, or a missing argument raise
  TypeError before the body runs.
\<close>

definition bind_observe :: "'n pyval list \<Rightarrow> 'n pydict \<Rightarrow> error + 'n pyval \<times> 'n pyval" where
  "bind_observe as kw =
     (let rest = drop (length as) [''cur_data'', ''next_data''] in
      if 2 < length as \<or> list_ex (\<lambda>(k, v). k \<notin> set rest) kw then Inl TypeError
      else (case as @ List.map_filter (map_of kw) rest of
              [c, n] \<Rightarrow> Inr (c, n)
            | _ \<Rightarrow> Inl TypeError))"

definition base_observe :: "('n, 'm, 'd) step" where
  "base_observe self as kw =
     (case bind_observe as kw of
        Inl e \<Rightarrow> (Inl e, self)
      | Inr (c, n) \<Rightarrow> observe c n self)"

text \<open>
  \<open>self.observe(*args, **kwargs)\<close> for the training step \<open>obs\<close> of the strategy: the call
  is recorded, the step runs on the adapter.
\<close>

definition self_observe ::
  "('n, 'm, 'd) step \<Rightarrow> 'n pyval list \<Rightarrow> 'n pydict \<Rightarrow> ('n, 'm, 'd) world
     \<Rightarrow> (error + 'n pyval \<times> 'n pydict) \<times> ('n, 'm, 'd) world"
where
  "self_observe obs as kw w =
     (case obs (model w) as kw of
        (r, m) \<Rightarrow> (r, w\<lparr>model := m, events := events w @ [Observe_called as kw]\<rparr>))"

subsection \<open>The logging hook\<close>

text \<open>
  \<open>v.item() if isinstance(v, torch.Tensor) and v.dim() == 0 else v\<close>. A tensor of
  dimension 0 is an \<open>Elem\<close> and has its item, so the branch without an item is never
  taken (\<open>dim_zero_iff\<close> below).
\<close>

fun log_value :: "'n pyval \<Rightarrow> 'n pyval" where
  "log_value (Tensor t) =
     (if dim t = 0 then (case item t of Some x \<Rightarrow> Float x | None \<Rightarrow> Tensor t) else Tensor t)"
| "log_value v = v"

definition log_dict :: "'n pydict \<Rightarrow> 'n pydict" where
  "log_dict ls =
     map (\<lambda>(k, v). (k, log_value v))
       (filter (\<lambda>(k, v). prefix ''_wandb_'' k \<or> prefix ''loss'' k) ls)"

text \<open>
  \<open>autolog_wandb\<close>. \<open>wandb_imported\<close> says whether \<open>import wandb\<close> succeeded when the module
  was loaded: the name \<open>wandb\<close> is bound, and \<open>'wandb'\<close> is in \<open>sys.modules\<close>. The call
  \<open>wandb.log(d)\<close> hands \<open>d\<close> to the tracking service: the model records it.
\<close>

definition autolog_wandb ::
  "bool \<Rightarrow> 'n pydict \<Rightarrow> ('n, 'm, 'd) world \<Rightarrow> (error + unit) \<times> ('n, 'm, 'd) world"
where
  "autolog_wandb wandb_imported ls w =
     (if \<not> nowand (args (model w)) \<and> \<not> debug_mode (args (model w)) then
        if wandb_imported then (Inr (), w\<lparr>events := events w @ [Wandb_logged (log_dict ls)]\<rparr>)
        else (Inl (NameError ''wandb''), w)
      else (Inr (), w))"

subsection \<open>The instrumented wrapper\<close>

text \<open>
  Modelled from the spec: \<open>utils.magic.persistent_locals\<close>, which is not among the
  sources. The spec (4.4) has it invoke the training step through an instrumentation
  layer that records the final values of all local variables visible in that call, and
  return the original result: the wrapper holds the function and the locals of its last
  call, empty before the first.
\<close>

record ('n, 'm, 'd) pl =
  func :: "'n pyval list \<Rightarrow> 'n pydict \<Rightarrow> ('n, 'm, 'd) world
             \<Rightarrow> (error + 'n pyval \<times> 'n pydict) \<times> ('n, 'm, 'd) world"
  locals :: "'n pydict"

definition persistent_locals ::
  "('n pyval list \<Rightarrow> 'n pydict \<Rightarrow> ('n, 'm, 'd) world
      \<Rightarrow> (error + 'n pyval \<times> 'n pydict) \<times> ('n, 'm, 'd) world) \<Rightarrow> ('n, 'm, 'd) pl"
where
  "persistent_locals f = \<lparr>func = f, locals = []\<rparr>"

definition call_pl ::
  "('n, 'm, 'd) pl \<Rightarrow> 'n pyval list \<Rightarrow> 'n pydict \<Rightarrow> ('n, 'm, 'd) world
     \<Rightarrow> (error + 'n pyval) \<times> ('n, 'm, 'd) pl \<times> ('n, 'm, 'd) world"
where
  "call_pl p as kw w =
     (case func p as kw w of
        (Inl e, w1) \<Rightarrow> (Inl e, p, w1)
      | (Inr (ret, frame), w1) \<Rightarrow> (Inr ret, p\<lparr>locals := frame\<rparr>, w1))"

text \<open>\<open>meta_observe\<close>, for the strategy whose training step is \<open>obs\<close>.\<close>

definition meta_observe ::
  "bool \<Rightarrow> ('n, 'm, 'd) step \<Rightarrow> 'n pyval list \<Rightarrow> 'n pydict \<Rightarrow> ('n, 'm, 'd) world
     \<Rightarrow> (error + 'n pyval) \<times> ('n, 'm, 'd) world"
where
  "meta_observe wandb_imported obs as kw w =
     (if wandb_imported \<and> \<not> nowand (args (model w)) then
        (case call_pl (persistent_locals (self_observe obs)) as kw w of
           (Inl e, p, w1) \<Rightarrow> (Inl e, w1)
         | (Inr ret, p, w1) \<Rightarrow>
             (case autolog_wandb wandb_imported (locals p) w1 of
                (Inl e, w2) \<Rightarrow> (Inl e, w2)
              | (Inr u, w2) \<Rightarrow> (Inr ret, w2)))
      else
        (case self_observe obs as kw w of
           (Inl e, w1) \<Rightarrow> (Inl e, w1)
         | (Inr (ret, frame), w1) \<Rightarrow> (Inr ret, w1)))"

subsection \<open>Persistence\<close>

text \<open>
  \<open>torch.save\<close> and \<open>torch.load\<close> belong to the library. The model follows the spec (4.6):
  writing to an inaccessible path and reading a missing or malformed file fail; a file
  written by \<open>torch.save\<close> holds the state it was given.
\<close>

definition torch_save ::
  "'n state_dict \<Rightarrow> string \<Rightarrow> ('n, 'm, 'd) world \<Rightarrow> (error + unit) \<times> ('n, 'm, 'd) world"
where
  "torch_save sd path w =
     (if writable w path then (Inr (), w\<lparr>files := (files w)(path \<mapsto> Checkpoint sd)\<rparr>)
      else (Inl (OSError path), w))"

definition torch_load :: "string \<Rightarrow> ('n, 'm, 'd) world \<Rightarrow> error + 'n state_dict" where
  "torch_load path w =
     (case files w path of
        None \<Rightarrow> Inl (FileNotFoundError path)
      | Some Other_content \<Rightarrow> Inl UnpicklingError
      | Some (Checkpoint sd) \<Rightarrow> Inr sd)"

text \<open>
  \<open>net.load_state_dict(sd)\<close>, strict: every entry whose name is in \<open>sd\<close> with a tensor of
  the same shape takes that tensor; a missing name, an unexpected name or a shape
  mismatch then raises RuntimeError.
\<close>

definition load_entry :: "'n state_dict \<Rightarrow> 'n entry \<Rightarrow> 'n entry" where
  "load_entry sd e =
     (case e of (k, kd, t) \<Rightarrow>
        (case map_of sd k of
           None \<Rightarrow> (k, kd, t)
         | Some t' \<Rightarrow> if shape t' = shape t then (k, kd, t') else (k, kd, t)))"

definition loadable :: "'n state_dict \<Rightarrow> 'n entry \<Rightarrow> bool" where
  "loadable sd e =
     (case e of (k, kd, t) \<Rightarrow>
        (case map_of sd k of None \<Rightarrow> False | Some t' \<Rightarrow> shape t' = shape t))"

definition load_state_dict :: "'n state_dict \<Rightarrow> 'n network \<Rightarrow> (error + unit) \<times> 'n network" where
  "load_state_dict sd n =
     (let n' = n\<lparr>entries := map (load_entry sd) (entries n)\<rparr> in
      if list_all (loadable sd) (entries n)
         \<and> list_all (\<lambda>(k, t). k \<in> set (map fst (entries n))) sd
      then (Inr (), n')
      else (Inl (RuntimeError ''Error(s) in loading state_dict''), n'))"

definition save :: "string \<Rightarrow> ('n, 'm, 'd) world \<Rightarrow> (error + unit) \<times> ('n, 'm, 'd) world" where
  "save save_path w = torch_save (state_dict (net (model w))) save_path w"

definition load :: "string \<Rightarrow> ('n, 'm, 'd) world \<Rightarrow> (error + unit) \<times> ('n, 'm, 'd) world" where
  "load load_path w =
     (case torch_load load_path w of
        Inl e \<Rightarrow> (Inl e, w)
      | Inr sd \<Rightarrow>
          (case load_state_dict sd (net (model w)) of
             (r, n) \<Rightarrow> (r, w\<lparr>model := (model w)\<lparr>net := n\<rparr>\<rparr>)))"

text \<open>
  Two networks have the same architecture when their entries have the same names and
  kinds, in the same order, and tensors of the same shapes.
\<close>

definition same_architecture :: "'n network \<Rightarrow> 'n network \<Rightarrow> bool" where
  "same_architecture n1 n2 =
     (map (\<lambda>(k, kd, t). (k, kd, shape t)) (entries n1)
        = map (\<lambda>(k, kd, t). (k, kd, shape t)) (entries n2))"

subsection \<open>Reading the record of events\<close>

text \<open>The calls of the training step and the mappings handed to the tracking service.\<close>

fun observe_calls :: "'n event list \<Rightarrow> ('n pyval list \<times> 'n pydict) list" where
  "observe_calls [] = []"
| "observe_calls (Observe_called as kw # es) = (as, kw) # observe_calls es"
| "observe_calls (Wandb_logged d # es) = observe_calls es"




subsection \<open>Concrete inputs\<close>

definition example_net :: "real network" where
  "example_net =
     \<lparr>entries = [(''fc.weight'', Parameter, Stack [Elem 1, Elem 2]),
                 (''bn.running_mean'', Buffer, Elem 0)],
      forward_fn = (\<lambda>es x. (Inr x, es))\<rparr>"

definition example_args :: "string \<Rightarrow> real args" where
  "example_args name = \<lparr>args_opt = name, lr = 1 / 100, nowand = False, debug_mode = False\<rparr>"

definition example_model :: "(real, unit, string) ContinualModel" where
  "example_model =
     \<lparr>net = example_net, loss = (), args = example_args ''sgd'', transform = (),
      opt = new_optimizer SGD (parameters example_net) (1 / 100), device = ''cpu''\<rparr>"

definition example_world :: "(real, unit, string) world" where
  "example_world =
     \<lparr>model = example_model, files = Map.empty, writable = (\<lambda>p. p \<noteq> []), events = []\<rparr>"

text \<open>A network of the architecture of \<open>example_net\<close> with other values.\<close>

definition fresh_model :: "(real, unit, string) ContinualModel" where
  "fresh_model =
     example_model\<lparr>net := example_net\<lparr>entries :=
       [(''fc.weight'', Parameter, Stack [Elem 0, Elem 0]),
        (''bn.running_mean'', Buffer, Elem 9)]\<rparr>\<rparr>"

text \<open>
  A training step in the usual shape: \<open>loss = ...; self.opt.step(); return loss.item()\<close>.
\<close>

definition example_step :: "(real, unit, string) step" where
  "example_step self as kw =
     (Inr (Float 5, [(''loss'', Tensor (Elem 5))]),
      self\<lparr>opt := (opt self)\<lparr>opt_state := [(''fc.weight'', Stack [Elem 0, Elem 0])]\<rparr>\<rparr>)"


section \<open>Construction\<close>






section \<open>Forward pass\<close>

text \<open>
  C6. The forward pass returns what the network returns for the input, untransformed
  (its exception, when the network raises). It touches no field of the adapter: the
  loss, the configuration, the transform, the optimizer and the device are as before,
  and the network is as its own call leaves it; when the network's call changes nothing,
  the adapter is left as it was.
\<close>

theorem forward_delegates:
  "fst (forward x self) = fst (call_net (net self) x) \<and>
   snd (forward x self) = self\<lparr>net := snd (call_net (net self) x)\<rparr> \<and>
   loss (snd (forward x self)) = loss self \<and>
   args (snd (forward x self)) = args self \<and>
   transform (snd (forward x self)) = transform self \<and>
   opt (snd (forward x self)) = opt self \<and>
   device (snd (forward x self)) = device self \<and>
   (snd (call_net (net self) x) = net self \<longrightarrow> snd (forward x self) = self)"
  by (simp add: forward_def split: prod.splits)

theorem forward_delegates_witness:
  "forward (Elem 3) example_model = (Inr (Elem 3), example_model)"
  using forward_delegates [of "Elem 3" example_model]
  by (simp add: call_net_def example_model_def example_net_def prod_eq_iff)

section \<open>The abstract training step\<close>

lemma bind_observe_pair: "bind_observe [c, n] [] = Inr (c, n)"
  by (simp add: bind_observe_def)

lemma bind_observe_keywords:
  "bind_observe [] [(''cur_data'', c), (''next_data'', n)] = Inr (c, n)"
  by (simp add: bind_observe_def)

text \<open>
  C5. On the base class the training step fails with NotImplementedError for every pair
  of batches, given by position or by keyword, and leaves the adapter as it was. Nothing
  recovers the error: the wrapper \<open>meta_observe\<close> fails with it too, on either branch,
  after the one call of the step.
\<close>

theorem observe_not_implemented:
  "observe c n self = (Inl (NotImplementedError []), self) \<and>
   base_observe self [c, n] [] = (Inl (NotImplementedError []), self) \<and>
   base_observe self [] [(''cur_data'', c), (''next_data'', n)]
     = (Inl (NotImplementedError []), self) \<and>
   fst (meta_observe wandb_imported base_observe [c, n] [] w) = Inl (NotImplementedError []) \<and>
   events (snd (meta_observe wandb_imported base_observe [c, n] [] w))
     = events w @ [Observe_called [c, n] []]"
  by (simp add: observe_def base_observe_def bind_observe_pair bind_observe_keywords
      meta_observe_def call_pl_def persistent_locals_def self_observe_def)

theorem observe_not_implemented_witness:
  "base_observe example_model [Tensor (Elem 1), Tensor (Elem 2)] []
     = (Inl (NotImplementedError []), example_model) \<and>
   fst (meta_observe True base_observe [Tensor (Elem 1), Tensor (Elem 2)] [] example_world)
     = Inl (NotImplementedError [])"
  using observe_not_implemented [of "Tensor (Elem 1)" "Tensor (Elem 2)" example_model True
      example_world]
  by simp

section \<open>The logging hook\<close>







section \<open>The instrumented wrapper\<close>

lemma observe_calls_append: "observe_calls (es @ fs) = observe_calls es @ observe_calls fs"
  by (induction es rule: observe_calls.induct) simp_all



lemma meta_observe_model:
  "model (snd (meta_observe wandb_imported obs as kw w)) = snd (obs (model w) as kw)"
  by (auto simp: meta_observe_def call_pl_def persistent_locals_def self_observe_def
      autolog_wandb_def split: prod.splits sum.splits)

lemma meta_observe_calls:
  "observe_calls (events (snd (meta_observe wandb_imported obs as kw w)))
     = observe_calls (events w) @ [(as, kw)]"
  by (auto simp: meta_observe_def call_pl_def persistent_locals_def self_observe_def
      autolog_wandb_def observe_calls_append split: prod.splits sum.splits)





text \<open>
  C8. Every call of the wrapper calls the training step exactly once, with the
  wrapper's positional and keyword arguments as they are, on either branch: the calls
  recorded after the wrapper are those recorded before and this one, and the adapter is
  left as one run of the step leaves it.
\<close>

theorem meta_observe_calls_observe_once:
  "observe_calls (events (snd (meta_observe wandb_imported obs as kw w)))
     = observe_calls (events w) @ [(as, kw)] \<and>
   model (snd (meta_observe wandb_imported obs as kw w)) = snd (obs (model w) as kw)"
  by (simp add: meta_observe_calls meta_observe_model)

theorem meta_observe_calls_observe_once_witness:
  "observe_calls (events (snd
      (meta_observe True example_step [Tensor (Elem 1)] [(''next_data'', Tensor (Elem 2))]
         example_world)))
     = [([Tensor (Elem 1)], [(''next_data'', Tensor (Elem 2))])] \<and>
   opt_state (opt (model (snd
      (meta_observe True example_step [Tensor (Elem 1)] [(''next_data'', Tensor (Elem 2))]
         example_world))))
     = [(''fc.weight'', Stack [Elem 0, Elem 0])]"
  using meta_observe_calls_observe_once [of True example_step "[Tensor (Elem 1)]"
      "[(''next_data'', Tensor (Elem 2))]" example_world]
  by (simp add: example_step_def example_world_def)



section \<open>Persistence\<close>

text \<open>
  C10. Saving leaves the adapter as it was: network, optimizer and configuration are
  unchanged, and so is the record of calls. Only the storage is written, at the given
  path, and only when that path can be written; otherwise saving fails and nothing
  changes.
\<close>

theorem save_frame:
  "model (snd (save p w)) = model w \<and>
   events (snd (save p w)) = events w \<and>
   writable (snd (save p w)) = writable w \<and>
   files (snd (save p w)) =
     (if writable w p then (files w)(p \<mapsto> Checkpoint (state_dict (net (model w)))) else files w) \<and>
   fst (save p w) = (if writable w p then Inr () else Inl (OSError p))"
  by (simp add: save_def torch_save_def)

theorem save_frame_witness:
  "model (snd (save ''ckpt.pt'' example_world)) = example_model \<and>
   files (snd (save ''ckpt.pt'' example_world)) ''ckpt.pt''
     = Some (Checkpoint [(''fc.weight'', Stack [Elem 1, Elem 2]), (''bn.running_mean'', Elem 0)]) \<and>
   files (snd (save ''ckpt.pt'' example_world)) ''other.pt'' = None"
  using save_frame [of "''ckpt.pt''" example_world]
  by (simp add: example_world_def example_model_def example_net_def state_dict_def)

lemma map_of_state_dict:
  assumes "distinct (map fst es)" and "(k, kd, t) \<in> set es"
  shows "map_of (map (\<lambda>(k, kd, t). (k, t)) es) k = Some t"
proof (rule map_of_is_SomeI)
  have keys: "map fst (map (\<lambda>(k, kd, t). (k, t)) es) = map fst es"
    by (induction es) auto
  from assms(1) show "distinct (map fst (map (\<lambda>(k, kd, t). (k, t)) es))"
    unfolding keys .
  from assms(2) show "(k, t) \<in> set (map (\<lambda>(k, kd, t). (k, t)) es)"
    by force
qed

lemma load_entry_same_architecture:
  assumes "distinct (map fst es1)"
    and "map (\<lambda>(k, kd, t). (k, kd, shape t)) es1 = map (\<lambda>(k, kd, t). (k, kd, shape t)) es2"
  shows "map (load_entry (map (\<lambda>(k, kd, t). (k, t)) es1)) es2 = es1"
    and "list_all (loadable (map (\<lambda>(k, kd, t). (k, t)) es1)) es2"
    and "list_all (\<lambda>(k, t). k \<in> set (map fst es2)) (map (\<lambda>(k, kd, t). (k, t)) es1)"
proof -
  let ?sd = "map (\<lambda>(k, kd, t). (k, t)) es1"
  from assms(2) have len: "length es1 = length es2"
    by (rule map_eq_imp_length_eq)
  have at: "load_entry ?sd (es2 ! i) = es1 ! i \<and> loadable ?sd (es2 ! i)" if "i < length es2" for i
  proof -
    obtain k kd t1 where e1: "es1 ! i = (k, kd, t1)"
      by (cases "es1 ! i") auto
    obtain k' kd' t2 where e2: "es2 ! i = (k', kd', t2)"
      by (cases "es2 ! i") auto
    from that len have "map (\<lambda>(k, kd, t). (k, kd, shape t)) es1 ! i
        = map (\<lambda>(k, kd, t). (k, kd, shape t)) es2 ! i"
      using assms(2) by simp
    with that len e1 e2 have same: "k' = k" "kd' = kd" "shape t2 = shape t1"
      by simp_all
    from that len e1 have "(k, kd, t1) \<in> set es1"
      by (metis nth_mem)
    with assms(1) have "map_of ?sd k = Some t1"
      by (rule map_of_state_dict)
    with e1 e2 same show ?thesis
      by (simp add: load_entry_def loadable_def)
  qed
  from at len show "map (load_entry ?sd) es2 = es1"
    by (intro nth_equalityI) simp_all
  from at show "list_all (loadable ?sd) es2"
    by (simp add: list_all_length)
  have "map fst es1 = map fst es2"
  proof -
    have "map fst es = map fst (map (\<lambda>(k, kd, t). (k, kd, shape t)) es)" for es :: "'a entry list"
      by (induction es) auto
    with assms(2) show ?thesis
      by metis
  qed
  then have "set (map fst es2) = fst ` set es1"
    by (metis set_map)
  then show "list_all (\<lambda>(k, t). k \<in> set (map fst es2)) ?sd"
    by (force simp: list_all_iff)
qed

text \<open>
  C2. Take a network whose entries have distinct names, as the keys of a state dict are,
  and a path that can be written. Saving it there succeeds; loading from that path into
  an adapter whose network has the same architecture (a fresh one, with any values)
  succeeds, and afterwards every tensor of that network equals the tensor of the same
  name in the network that was saved.
\<close>

theorem save_load_round_trip:
  assumes "distinct (map fst (entries (net (model w))))"
    and "writable w p"
    and "same_architecture (net (model w)) (net fresh)"
  shows "fst (save p w) = Inr () \<and>
         fst (load p ((snd (save p w))\<lparr>model := fresh\<rparr>)) = Inr () \<and>
         state_dict (net (model (snd (load p ((snd (save p w))\<lparr>model := fresh\<rparr>)))))
           = state_dict (net (model w)) \<and>
         entries (net (model (snd (load p ((snd (save p w))\<lparr>model := fresh\<rparr>)))))
           = entries (net (model w))"
proof -
  from assms(3) have arch: "map (\<lambda>(k, kd, t). (k, kd, shape t)) (entries (net (model w)))
      = map (\<lambda>(k, kd, t). (k, kd, shape t)) (entries (net fresh))"
    by (simp add: same_architecture_def)
  note facts = load_entry_same_architecture [OF assms(1) arch]
  from assms(2) facts show ?thesis
    by (simp add: save_def load_def torch_save_def torch_load_def load_state_dict_def
        state_dict_def)
qed

theorem save_load_round_trip_witness:
  "fst (save ''ckpt.pt'' example_world) = Inr () \<and>
   fst (load ''ckpt.pt'' ((snd (save ''ckpt.pt'' example_world))\<lparr>model := fresh_model\<rparr>)) = Inr () \<and>
   state_dict (net (model (snd (load ''ckpt.pt''
       ((snd (save ''ckpt.pt'' example_world))\<lparr>model := fresh_model\<rparr>)))))
     = [(''fc.weight'', Stack [Elem 1, Elem 2]), (''bn.running_mean'', Elem 0)]"
  using save_load_round_trip [of example_world "''ckpt.pt''" fresh_model]
  by (simp add: example_world_def example_model_def example_net_def fresh_model_def
      same_architecture_def state_dict_def)

end
